theory Spec2Isabelle
  imports Complex_Main
begin

section \<open>Python values\<close>

text \<open>
  The program keeps every piece of data as a value decoded from JSON: the cache file
  \<^verbatim>\<open>nutrition_db.json\<close>, the body of the Open Food Facts reply and the nutrition
  record itself are Python dicts, lists, strings, numbers, booleans and \<^verbatim>\<open>None\<close>.
  A Python number is an \<^verbatim>\<open>int\<close> or a \<^verbatim>\<open>float\<close>; a finite float is the
  rational it denotes, and Python compares numbers of both kinds by their exact
  value. The non-finite floats (NaN, the infinities) are left out.
  A dict is the list of its items in insertion order; a key is looked up with
  \<open>map_of\<close>.
\<close>

datatype pynum = PInt int | PFloat rat

datatype json =
    JNull
  | JBool bool
  | JNum pynum
  | JStr string
  | JArr "json list"
  | JObj "(string \<times> json) list"

text \<open>The exceptions the modelled code can meet.\<close>

datatype exn =
    KeyError
  | TypeError
  | AttributeError
  | UnicodeDecodeError
  | OSError
  | RequestException
  | JSONDecodeError
  | ImageError

fun num_val :: "pynum \<Rightarrow> rat" where
  "num_val (PInt i) = of_int i"
| "num_val (PFloat q) = q"

text \<open>
  The numeric value of an operand of \<^verbatim>\<open><\<close>, \<^verbatim>\<open>>\<close> and \<^verbatim>\<open>==\<close>
  against a number: \<^verbatim>\<open>bool\<close> is a subclass of \<^verbatim>\<open>int\<close> in Python
  (\<^verbatim>\<open>True == 1\<close>); every other kind of value is not a number.
\<close>

fun as_number :: "json \<Rightarrow> rat option" where
  "as_number (JNum n) = Some (num_val n)"
| "as_number (JBool b) = Some (if b then 1 else 0)"
| "as_number JNull = None"
| "as_number (JStr s) = None"
| "as_number (JArr xs) = None"
| "as_number (JObj kvs) = None"

text \<open>Truth value of a Python object, as \<^verbatim>\<open>if x:\<close> and \<^verbatim>\<open>not x\<close> test it.\<close>

fun truthy :: "json \<Rightarrow> bool" where
  "truthy JNull = False"
| "truthy (JBool b) = b"
| "truthy (JNum n) = (num_val n \<noteq> 0)"
| "truthy (JStr s) = (s \<noteq> [])"
| "truthy (JArr xs) = (xs \<noteq> [])"
| "truthy (JObj kvs) = (kvs \<noteq> [])"

text \<open>
  \<^verbatim>\<open>d.get(k, default)\<close>: only a dict has the method; on any other value the
  attribute lookup raises AttributeError.
\<close>

definition get_or :: "(string \<times> json) list \<Rightarrow> string \<Rightarrow> json \<Rightarrow> json" where
  "get_or kvs k dflt = (case map_of kvs k of None \<Rightarrow> dflt | Some v \<Rightarrow> v)"

fun dict_get :: "json \<Rightarrow> string \<Rightarrow> json \<Rightarrow> exn + json" where
  "dict_get (JObj kvs) k dflt = Inr (get_or kvs k dflt)"
| "dict_get JNull k dflt = Inl AttributeError"
| "dict_get (JBool b) k dflt = Inl AttributeError"
| "dict_get (JNum n) k dflt = Inl AttributeError"
| "dict_get (JStr s) k dflt = Inl AttributeError"
| "dict_get (JArr xs) k dflt = Inl AttributeError"

text \<open>
  \<^verbatim>\<open>d[k]\<close> with a string key: KeyError on a dict without the key, TypeError on
  every value that is not a dict (a list or a string takes integer indices, the
  others are not subscriptable).
\<close>

fun subscript :: "json \<Rightarrow> string \<Rightarrow> exn + json" where
  "subscript (JObj kvs) k = (case map_of kvs k of None \<Rightarrow> Inl KeyError | Some v \<Rightarrow> Inr v)"
| "subscript JNull k = Inl TypeError"
| "subscript (JBool b) k = Inl TypeError"
| "subscript (JNum n) k = Inl TypeError"
| "subscript (JStr s) k = Inl TypeError"
| "subscript (JArr xs) k = Inl TypeError"

text \<open>
  \<^verbatim>\<open>d[k] = v\<close> on a dict: an existing key keeps its place, a new key goes to the
  end.
\<close>

fun dict_set :: "(string \<times> json) list \<Rightarrow> string \<Rightarrow> json \<Rightarrow> (string \<times> json) list" where
  "dict_set [] k v = [(k, v)]"
| "dict_set ((k', v') # kvs) k v =
     (if k' = k then (k, v) # kvs else (k', v') # dict_set kvs k v)"

fun set_item :: "json \<Rightarrow> string \<Rightarrow> json \<Rightarrow> exn + json" where
  "set_item (JObj kvs) k v = Inr (JObj (dict_set kvs k v))"
| "set_item JNull k v = Inl TypeError"
| "set_item (JBool b) k v = Inl TypeError"
| "set_item (JNum n) k v = Inl TypeError"
| "set_item (JStr s) k v = Inl TypeError"
| "set_item (JArr xs) k v = Inl TypeError"

section \<open>The cache file: load_nutrition_db and save_nutrition_db\<close>

text \<open>
  The state of \<^verbatim>\<open>nutrition_db.json\<close>: the file is missing, it exists but cannot
  be read or parsed, or it holds a JSON document. Writing it can fail (the code
  catches that in \<^verbatim>\<open>save_nutrition_db\<close>), in two ways:
  \<^verbatim>\<open>open(path, "w")\<close> raises and the file stays as it was, or the file is opened,
  which truncates it, and \<^verbatim>\<open>json.dump\<close> raises before the document is complete,
  which leaves a file that does not parse.
\<close>

datatype file_state = Missing | Unreadable | Contents json

datatype fault = NoFault | OpenFails | DumpFails

record disk =
  db_file :: file_state
  write_fault :: fault

definition empty_db :: json where
  "empty_db = JObj [(''barcodes'', JObj [])]"

text \<open>
  \<^verbatim>\<open>with open(path, "w") as f: json.dump(v, f)\<close>; \<open>Inl\<close> is the exception with
  the disk it leaves behind.
\<close>

definition write_file :: "json \<Rightarrow> disk \<Rightarrow> exn \<times> disk + disk" where
  "write_file v d =
     (case write_fault d of
        NoFault \<Rightarrow> Inr (d\<lparr>db_file := Contents v\<rparr>)
      | OpenFails \<Rightarrow> Inl (OSError, d)
      | DumpFails \<Rightarrow> Inl (OSError, d\<lparr>db_file := Unreadable\<rparr>))"

text \<open>
  \<^verbatim>\<open>load_nutrition_db\<close>: the creation of a missing file stands outside the
  \<^verbatim>\<open>try\<close>, so its failure is raised to the caller; a failure to read or parse
  is caught and answered with a fresh empty store.
\<close>

definition load_nutrition_db :: "disk \<Rightarrow> exn \<times> disk + json \<times> disk" where
  "load_nutrition_db d =
     (case (if db_file d = Missing then write_file empty_db d else Inr d) of
        Inl (e, d1) \<Rightarrow> Inl (e, d1)
      | Inr d1 \<Rightarrow>
          (case db_file d1 of
             Contents v \<Rightarrow> Inr (v, d1)
           | Missing \<Rightarrow> Inr (empty_db, d1)
           | Unreadable \<Rightarrow> Inr (empty_db, d1)))"

text \<open>
  \<^verbatim>\<open>save_nutrition_db\<close>: a failed write is logged and dropped; the disk is as the
  failure left it.
\<close>

definition save_nutrition_db :: "json \<Rightarrow> disk \<Rightarrow> disk" where
  "save_nutrition_db db d = (case write_file db d of Inl (e, d1) \<Rightarrow> d1 | Inr d1 \<Rightarrow> d1)"

section \<open>The remote lookup: fetch_barcode_data\<close>

text \<open>
  The outcome of \<^verbatim>\<open>requests.get(url, timeout=5)\<close> followed by
  \<^verbatim>\<open>response.json()\<close>: the request raises (no connection, timeout), or a reply
  arrives with a status code and a body that parses as JSON or does not.
  The remote database is a function from the barcode in the URL to that outcome.
\<close>

datatype body = BadJson | Json json

datatype http_result = NetFail | Reply int body

definition nutrition_result :: "json \<Rightarrow> json \<Rightarrow> exn + json" where
  "nutrition_result product nutriments =
     (case dict_get product ''product_name'' (JStr ''Unknown Product'') of
        Inl e \<Rightarrow> Inl e
      | Inr name \<Rightarrow>
     (case dict_get nutriments ''energy-kcal_100g'' (JNum (PInt 0)) of
        Inl e \<Rightarrow> Inl e
      | Inr calories \<Rightarrow>
     (case dict_get nutriments ''fat_100g'' (JNum (PInt 0)) of
        Inl e \<Rightarrow> Inl e
      | Inr fat \<Rightarrow>
     (case dict_get nutriments ''carbohydrates_100g'' (JNum (PInt 0)) of
        Inl e \<Rightarrow> Inl e
      | Inr carbs \<Rightarrow>
     (case dict_get nutriments ''proteins_100g'' (JNum (PInt 0)) of
        Inl e \<Rightarrow> Inl e
      | Inr protein \<Rightarrow>
     (case dict_get nutriments ''sugars_100g'' (JNum (PInt 0)) of
        Inl e \<Rightarrow> Inl e
      | Inr sugar \<Rightarrow>
     (case dict_get nutriments ''fiber_100g'' (JNum (PInt 0)) of
        Inl e \<Rightarrow> Inl e
      | Inr fiber \<Rightarrow>
          Inr (JObj [(''name'', name), (''calories'', calories), (''fat'', fat),
                     (''carbs'', carbs), (''protein'', protein), (''sugar'', sugar),
                     (''fiber'', fiber)]))))))))"

text \<open>
  The body of the \<^verbatim>\<open>try\<close> of \<^verbatim>\<open>fetch_barcode_data\<close>: \<open>Inl\<close> is a raised
  exception, \<open>Inr None\<close> a \<^verbatim>\<open>return None\<close>, \<open>Inr (Some r)\<close> the returned dict.
\<close>

definition fetch_try :: "(string \<Rightarrow> http_result) \<Rightarrow> string \<Rightarrow> exn + json option" where
  "fetch_try remote barcode =
     (case remote barcode of
        NetFail \<Rightarrow> Inl RequestException
      | Reply status_code b \<Rightarrow>
          if status_code \<noteq> 200 then Inr None
          else
            (case b of
               BadJson \<Rightarrow> Inl JSONDecodeError
             | Json data \<Rightarrow>
                 (case dict_get data ''status'' JNull of
                    Inl e \<Rightarrow> Inl e
                  | Inr status \<Rightarrow>
                 (case dict_get data ''product'' JNull of
                    Inl e \<Rightarrow> Inl e
                  | Inr found \<Rightarrow>
                      if as_number status \<noteq> Some 1 \<or> \<not> truthy found then Inr None
                      else
                        (case subscript data ''product'' of
                           Inl e \<Rightarrow> Inl e
                         | Inr product \<Rightarrow>
                        (case dict_get product ''nutriments'' (JObj []) of
                           Inl e \<Rightarrow> Inl e
                         | Inr nutriments \<Rightarrow>
                        (case nutrition_result product nutriments of
                           Inl e \<Rightarrow> Inl e
                         | Inr result \<Rightarrow> Inr (Some result))))))))"

text \<open>\<^verbatim>\<open>except Exception: return None\<close>\<close>

definition fetch_barcode_data :: "(string \<Rightarrow> http_result) \<Rightarrow> string \<Rightarrow> json option" where
  "fetch_barcode_data remote barcode =
     (case fetch_try remote barcode of Inl e \<Rightarrow> None | Inr r \<Rightarrow> r)"

section \<open>The scan: scan_barcode\<close>

text \<open>
  One element of the list \<^verbatim>\<open>pyzbar.decode\<close> returns: the payload as bytes and
  the symbology. The bytes are the UTF-8 encoding of a string, or they are not valid
  UTF-8 and \<^verbatim>\<open>barcode.data.decode("utf-8")\<close> raises.
\<close>

datatype bytes = Utf8 string | Malformed

record decoded =
  bdata :: bytes
  btype :: string

fun decode_utf8 :: "bytes \<Rightarrow> exn + string" where
  "decode_utf8 (Utf8 s) = Inr s"
| "decode_utf8 Malformed = Inl UnicodeDecodeError"

text \<open>
  What a scan does besides returning: a lookup in the loaded store
  (\<^verbatim>\<open>db["barcodes"].get\<close>), a call of \<^verbatim>\<open>fetch_barcode_data\<close>, a call of
  \<^verbatim>\<open>save_nutrition_db\<close> with the store it is given, and a warning shown to the
  user (\<^verbatim>\<open>st.warning\<close>). The calls of \<^verbatim>\<open>logging\<close> are not modelled.
\<close>

datatype event =
    CacheGet string
  | RemoteCall string
  | Save json
  | Warning string

type_synonym scan_state = "(exn + json option) \<times> disk \<times> event list"

text \<open>The events \<open>evs\<close> happened before the rest of the scan, whose outcome is \<open>s\<close>.\<close>

fun after :: "event list \<Rightarrow> scan_state \<Rightarrow> scan_state" where
  "after evs (res, d, evs') = (res, d, evs @ evs')"

text \<open>\<^verbatim>\<open>db["barcodes"][barcode_data] = nutritional_info\<close>\<close>

definition cache_insert :: "json \<Rightarrow> string \<Rightarrow> json \<Rightarrow> exn + json" where
  "cache_insert db barcode_data nutritional_info =
     (case subscript db ''barcodes'' of
        Inl e \<Rightarrow> Inl e
      | Inr cache \<Rightarrow>
          (case set_item cache barcode_data nutritional_info of
             Inl e \<Rightarrow> Inl e
           | Inr cache' \<Rightarrow> set_item db ''barcodes'' cache'))"

text \<open>
  The \<^verbatim>\<open>for barcode in barcodes\<close> loop of \<^verbatim>\<open>scan_barcode\<close>, with the
  \<^verbatim>\<open>return None\<close> that follows it. \<open>Inl\<close> is an exception on its way to the
  \<^verbatim>\<open>except\<close> of \<^verbatim>\<open>scan_barcode\<close>. The f-string of the cache-hit log line
  reads \<^verbatim>\<open>nutritional_info['name']\<close>, which can raise.
\<close>

fun scan_loop :: "(string \<Rightarrow> http_result) \<Rightarrow> json \<Rightarrow> decoded list \<Rightarrow> disk \<Rightarrow> scan_state" where
  "scan_loop remote db [] d = (Inr None, d, [])"
| "scan_loop remote db (barcode # rest) d =
     (case decode_utf8 (bdata barcode) of
        Inl e \<Rightarrow> (Inl e, d, [])
      | Inr barcode_data \<Rightarrow>
          if btype barcode = ''PDF417'' then
            after [Warning (''PDF417 barcode '' @ barcode_data @ '' not supported. Use UPC/EAN format.'')]
              (scan_loop remote db rest d)
          else
            (case subscript db ''barcodes'' of
               Inl e \<Rightarrow> (Inl e, d, [])
             | Inr cache \<Rightarrow>
            (case dict_get cache barcode_data JNull of
               Inl e \<Rightarrow> (Inl e, d, [])
             | Inr nutritional_info \<Rightarrow>
                 if truthy nutritional_info then
                   (case subscript nutritional_info ''name'' of
                      Inl e \<Rightarrow> (Inl e, d, [CacheGet barcode_data])
                    | Inr name \<Rightarrow> (Inr (Some nutritional_info), d, [CacheGet barcode_data]))
                 else
                   (case fetch_barcode_data remote barcode_data of
                      Some fetched \<Rightarrow>
                        if truthy fetched then
                          (case cache_insert db barcode_data fetched of
                             Inl e \<Rightarrow> (Inl e, d, [CacheGet barcode_data, RemoteCall barcode_data])
                           | Inr db' \<Rightarrow>
                               (Inr (Some fetched), save_nutrition_db db' d,
                                [CacheGet barcode_data, RemoteCall barcode_data, Save db']))
                        else
                          after [CacheGet barcode_data, RemoteCall barcode_data,
                                 Warning (''Barcode '' @ barcode_data @ '' not found in database or Open Food Facts.'')]
                            (scan_loop remote db rest d)
                    | None \<Rightarrow>
                        after [CacheGet barcode_data, RemoteCall barcode_data,
                               Warning (''Barcode '' @ barcode_data @ '' not found in database or Open Food Facts.'')]
                          (scan_loop remote db rest d)))))"

text \<open>
  \<^verbatim>\<open>scan_barcode(image)\<close>. The preprocessing and \<^verbatim>\<open>pyzbar.decode\<close> (OpenCV and
  pyzbar, lines 79 to 85) are the parameter \<open>decode\<close>: they raise or return the list
  of decoded symbols. The load stands before the \<^verbatim>\<open>try\<close>, so its exception
  (\<open>Inl\<close>, with the disk it leaves) goes to the caller; every exception inside the
  \<^verbatim>\<open>try\<close> ends in \<^verbatim>\<open>return None\<close>.
\<close>

definition scan_barcode ::
  "('image \<Rightarrow> exn + decoded list) \<Rightarrow> (string \<Rightarrow> http_result) \<Rightarrow> 'image \<Rightarrow> disk
     \<Rightarrow> exn \<times> disk + json option \<times> disk \<times> event list" where
  "scan_barcode decode remote img d =
     (case load_nutrition_db d of
        Inl (e, d1) \<Rightarrow> Inl (e, d1)
      | Inr (db, d1) \<Rightarrow>
          if \<not> truthy db then Inr (None, d1, [])
          else
            (case decode img of
               Inl e \<Rightarrow> Inr (None, d1, [])
             | Inr barcodes \<Rightarrow>
                 if barcodes = [] then Inr (None, d1, [])
                 else
                   (case scan_loop remote db barcodes d1 of
                      (Inl e, d2, evs) \<Rightarrow> Inr (None, d2, evs)
                    | (Inr r, d2, evs) \<Rightarrow> Inr (r, d2, evs))))"

section \<open>The evaluation: check_nutrition\<close>

text \<open>
  The six thresholds are numbers. \<open>fmt\<close> is Python's rendering of a value inside an
  f-string (\<^verbatim>\<open>format(v, "")\<close>), a function of the standard library that the
  model takes as a parameter.
\<close>

datatype bound = Upper | Lower

fun violates :: "bound \<Rightarrow> rat \<Rightarrow> rat \<Rightarrow> bool" where
  "violates Upper x limit = (x > limit)"
| "violates Lower x limit = (x < limit)"

fun sign :: "bound \<Rightarrow> string" where
  "sign Upper = ''>''"
| "sign Lower = ''<''"

text \<open>
  One line of the function,
  \<^verbatim>\<open>if data.get(key, 0) > limit: mismatches.append(f"Label ({data[key]} > {limit})")\<close>:
  the comparison reads the field with the default 0 and raises TypeError on a value
  that is not a number; the message reads the field with no default.
\<close>

definition check_line ::
  "(json \<Rightarrow> string) \<Rightarrow> json \<Rightarrow> string \<Rightarrow> string \<Rightarrow> bound \<Rightarrow> pynum \<Rightarrow> string list
     \<Rightarrow> exn + string list" where
  "check_line fmt data key label b limit mismatches =
     (case dict_get data key (JNum (PInt 0)) of
        Inl e \<Rightarrow> Inl e
      | Inr v \<Rightarrow>
          (case as_number v of
             None \<Rightarrow> Inl TypeError
           | Some x \<Rightarrow>
               if violates b x (num_val limit) then
                 (case subscript data key of
                    Inl e \<Rightarrow> Inl e
                  | Inr actual \<Rightarrow>
                      Inr (mismatches @
                        [label @ '' ('' @ fmt actual @ '' '' @ sign b @ '' '' @ fmt (JNum limit) @ '')'']))
               else Inr mismatches))"

definition check_nutrition ::
  "(json \<Rightarrow> string) \<Rightarrow> json \<Rightarrow> pynum \<Rightarrow> pynum \<Rightarrow> pynum \<Rightarrow> pynum \<Rightarrow> pynum \<Rightarrow> pynum
     \<Rightarrow> exn + (bool \<times> string list)" where
  "check_nutrition fmt data max_calories min_protein max_fat max_carbs max_sugar min_fiber =
     (if \<not> truthy data then Inr (False, [])
      else
        (case check_line fmt data ''calories'' ''Calories'' Upper max_calories [] of
           Inl e \<Rightarrow> Inl e
         | Inr m1 \<Rightarrow>
        (case check_line fmt data ''protein'' ''Protein'' Lower min_protein m1 of
           Inl e \<Rightarrow> Inl e
         | Inr m2 \<Rightarrow>
        (case check_line fmt data ''fat'' ''Fat'' Upper max_fat m2 of
           Inl e \<Rightarrow> Inl e
         | Inr m3 \<Rightarrow>
        (case check_line fmt data ''carbs'' ''Carbs'' Upper max_carbs m3 of
           Inl e \<Rightarrow> Inl e
         | Inr m4 \<Rightarrow>
        (case check_line fmt data ''sugar'' ''Sugar'' Upper max_sugar m4 of
           Inl e \<Rightarrow> Inl e
         | Inr m5 \<Rightarrow>
        (case check_line fmt data ''fiber'' ''Fiber'' Lower min_fiber m5 of
           Inl e \<Rightarrow> Inl e
         | Inr mismatches \<Rightarrow> Inr (length mismatches = 0, mismatches))))))))"

text \<open>
  Python's rendering of an integer: decimal digits, a minus sign before a negative
  number. \<open>fmt_int\<close> is Python's rendering of integers, strings, booleans and
  \<^verbatim>\<open>None\<close> inside an f-string. The rendering of a float (the shortest decimal
  that reads back as the same float), of a list and of a dict is not modelled:
  \<open>fmt_int\<close> has no equation for them, and nothing is proved about its value there.
  It is used where a concrete rendering is wanted; the theorems hold for every
  rendering.
\<close>

fun str_nat :: "nat \<Rightarrow> string" where
  "str_nat n =
     (if n < 10 then [''0123456789'' ! n]
      else str_nat (n div 10) @ [''0123456789'' ! (n mod 10)])"

definition str_int :: "int \<Rightarrow> string" where
  "str_int i = (if i < 0 then CHR ''-'' # str_nat (nat (- i)) else str_nat (nat i))"

fun fmt_int :: "json \<Rightarrow> string" where
  "fmt_int (JNum (PInt i)) = str_int i"
| "fmt_int (JStr s) = s"
| "fmt_int JNull = ''None''"
| "fmt_int (JBool b) = (if b then ''True'' else ''False'')"

section \<open>The upload block of main\<close>

text \<open>
  Lines 186 to 225 of \<^verbatim>\<open>main\<close>: what the app does with an uploaded file. The
  block previews the file, reads it with \<^verbatim>\<open>cv2.imdecode\<close>, which returns
  \<^verbatim>\<open>None\<close> for bytes that are not a readable image, and only then calls
  \<^verbatim>\<open>scan_barcode\<close>. An upload is what the block is given from outside: the value
  \<^verbatim>\<open>cv2.imdecode\<close> returns, whether the user presses the export button, and
  whether \<^verbatim>\<open>df.to_csv\<close> raises.
\<close>

record 'image upload =
  imdecode :: "'image option"
  export_pressed :: bool
  csv_fails :: bool

text \<open>
  What the block shows and does, in order: the calls of \<^verbatim>\<open>st.image\<close>,
  \<^verbatim>\<open>st.error\<close>, \<^verbatim>\<open>st.success\<close>, \<^verbatim>\<open>st.warning\<close> and
  \<^verbatim>\<open>st.table\<close>, the three fixed lines of \<^verbatim>\<open>st.write\<close> (the two verdicts,
  which start with an emoji, and the details), the file \<^verbatim>\<open>scan_results.csv\<close>,
  and the events of the scan.
\<close>

datatype ui_output =
    ShowImage
  | ErrorMsg string
  | SuccessMsg string
  | WarningMsg string
  | Table json
  | WriteMeets
  | WriteDoesNotMeet
  | WriteDetails string
  | CsvFile json
  | FromScan event

text \<open>\<^verbatim>\<open>", ".join(mismatches)\<close>\<close>

fun join_comma :: "string list \<Rightarrow> string" where
  "join_comma [] = []"
| "join_comma [x] = x"
| "join_comma (x # y # ys) = x @ '', '' @ join_comma (y # ys)"

text \<open>
  The branch \<^verbatim>\<open>if result:\<close> (lines 203 to 220). An exception raised in it ends in
  the \<^verbatim>\<open>except\<close> of the block, after what was shown before.
\<close>

definition show_result ::
  "(json \<Rightarrow> string) \<Rightarrow> json \<Rightarrow> pynum \<Rightarrow> pynum \<Rightarrow> pynum \<Rightarrow> pynum \<Rightarrow> pynum \<Rightarrow> pynum
     \<Rightarrow> 'image upload \<Rightarrow> ui_output list" where
  "show_result fmt result max_calories min_protein max_fat max_carbs max_sugar min_fiber up =
     (case dict_get result ''name'' JNull of
        Inl e \<Rightarrow> [ErrorMsg ''Processing failed. Check nutriscan.log.'']
      | Inr name \<Rightarrow>
          [SuccessMsg (''Found: '' @ fmt name), Table result] @
          (case check_nutrition fmt result max_calories min_protein max_fat max_carbs max_sugar
                  min_fiber of
             Inl e \<Rightarrow> [ErrorMsg ''Processing failed. Check nutriscan.log.'']
           | Inr (meets_criteria, mismatches) \<Rightarrow>
               (if meets_criteria then [WriteMeets]
                else
                  WriteDoesNotMeet #
                  (if mismatches \<noteq> [] then [WriteDetails (join_comma mismatches)]
                   else [WarningMsg ''No specific mismatch details available. Check image or sliders.''])) @
               (if export_pressed up then
                  (if csv_fails up then [ErrorMsg ''Processing failed. Check nutriscan.log.'']
                   else [CsvFile result, SuccessMsg ''Exported to scan_results.csv!''])
                else [])))"

text \<open>
  The block itself. An unreadable image is answered before the scan is called
  (lines 194 to 197); an exception of \<^verbatim>\<open>scan_barcode\<close> ends in the
  \<^verbatim>\<open>except\<close> of the block; a scan that returns \<^verbatim>\<open>None\<close> is answered with
  the message of line 222.
\<close>

definition main_upload ::
  "(json \<Rightarrow> string) \<Rightarrow> ('image \<Rightarrow> exn + decoded list) \<Rightarrow> (string \<Rightarrow> http_result)
     \<Rightarrow> pynum \<Rightarrow> pynum \<Rightarrow> pynum \<Rightarrow> pynum \<Rightarrow> pynum \<Rightarrow> pynum
     \<Rightarrow> 'image upload \<Rightarrow> disk \<Rightarrow> ui_output list \<times> disk" where
  "main_upload fmt decode remote max_calories min_protein max_fat max_carbs max_sugar min_fiber up d =
     (case imdecode up of
        None \<Rightarrow> ([ShowImage, ErrorMsg ''Failed to read image. Try another file.''], d)
      | Some img \<Rightarrow>
          (case scan_barcode decode remote img d of
             Inl (e, d1) \<Rightarrow> ([ShowImage, ErrorMsg ''Processing failed. Check nutriscan.log.''], d1)
           | Inr (result, d1, evs) \<Rightarrow>
               (case result of
                  None \<Rightarrow>
                    (ShowImage # map FromScan evs @
                       [ErrorMsg ''Barcode not recognized. Check nutriscan.log for details.''], d1)
                | Some r \<Rightarrow>
                    if truthy r then
                      (ShowImage # map FromScan evs @
                         show_result fmt r max_calories min_protein max_fat max_carbs max_sugar
                           min_fiber up, d1)
                    else
                      (ShowImage # map FromScan evs @
                         [ErrorMsg ''Barcode not recognized. Check nutriscan.log for details.''], d1))))"

section \<open>Sample data\<close>

text \<open>
  A record with the values of the spec's scenario A, a store that holds it, a remote
  database that knows one product (with three nutrient fields missing) and reports
  another as not found, six images (the last one holds a PDF417 symbol whose bytes are
  not UTF-8 before a barcode of the store), the cache file on a disk that can be
  written, on one where the file cannot be opened for writing and on one where the
  write breaks off, a record with a \<^verbatim>\<open>null\<close> under one nutrient key, and the
  uploads of an unreadable file and of a readable image without barcodes.
\<close>

definition sample_record :: "(string \<times> json) list" where
  "sample_record =
     [(''name'', JStr ''Oat flakes''), (''calories'', JNum (PInt 120)), (''fat'', JNum (PInt 2)),
      (''carbs'', JNum (PInt 20)), (''protein'', JNum (PInt 3)), (''sugar'', JNum (PInt 5)),
      (''fiber'', JNum (PInt 2))]"

definition sample_cache :: "(string \<times> json) list" where
  "sample_cache = [(''5000112548167'', JObj sample_record)]"

definition sample_db :: "(string \<times> json) list" where
  "sample_db = [(''barcodes'', JObj sample_cache)]"

definition sample_product :: "(string \<times> json) list" where
  "sample_product =
     [(''nutriments'',
       JObj [(''energy-kcal_100g'', JNum (PInt 539)), (''fat_100g'', JNum (PFloat (309 / 10))),
             (''sugars_100g'', JNum (PFloat (563 / 10)))])]"

definition sample_remote :: "string \<Rightarrow> http_result" where
  "sample_remote b =
     (if b = ''3017620422003'' then
        Reply 200 (Json (JObj [(''status'', JNum (PInt 1)), (''product'', JObj sample_product)]))
      else if b = ''0000000000000'' then
        Reply 200 (Json (JObj [(''status'', JNum (PInt 0))]))
      else Reply 404 BadJson)"

definition sample_fetched :: json where
  "sample_fetched =
     JObj [(''name'', JStr ''Unknown Product''), (''calories'', JNum (PInt 539)),
           (''fat'', JNum (PFloat (309 / 10))), (''carbs'', JNum (PInt 0)),
           (''protein'', JNum (PInt 0)), (''sugar'', JNum (PFloat (563 / 10))),
           (''fiber'', JNum (PInt 0))]"

definition sample_db_after :: json where
  "sample_db_after =
     JObj [(''barcodes'',
            JObj [(''5000112548167'', JObj sample_record), (''3017620422003'', sample_fetched)])]"

definition ean13 :: "string \<Rightarrow> decoded" where
  "ean13 s = \<lparr>bdata = Utf8 s, btype = ''EAN13''\<rparr>"

definition pdf417 :: "string \<Rightarrow> decoded" where
  "pdf417 s = \<lparr>bdata = Utf8 s, btype = ''PDF417''\<rparr>"

definition pdf417_raw :: decoded where
  "pdf417_raw = \<lparr>bdata = Malformed, btype = ''PDF417''\<rparr>"

definition sample_decode :: "nat \<Rightarrow> exn + decoded list" where
  "sample_decode i =
     (if i = 0 then Inl ImageError
      else if i = 1 then Inr []
      else if i = 2 then Inr [ean13 ''5000112548167'']
      else if i = 3 then Inr [ean13 ''3017620422003'']
      else if i = 4 then Inr [ean13 ''0000000000000'']
      else Inr [pdf417_raw, ean13 ''5000112548167''])"

definition sample_disk :: disk where
  "sample_disk = \<lparr>db_file = Contents (JObj sample_db), write_fault = NoFault\<rparr>"

definition readonly_disk :: disk where
  "readonly_disk = \<lparr>db_file = Contents (JObj sample_db), write_fault = OpenFails\<rparr>"

definition full_disk :: disk where
  "full_disk = \<lparr>db_file = Contents (JObj sample_db), write_fault = DumpFails\<rparr>"

definition null_record :: "(string \<times> json) list" where
  "null_record =
     [(''name'', JStr ''Oat flakes''), (''calories'', JNum (PInt 120)), (''fat'', JNull),
      (''carbs'', JNum (PInt 20)), (''protein'', JNum (PInt 3)), (''sugar'', JNum (PInt 5)),
      (''fiber'', JNum (PInt 2))]"



section \<open>Auxiliary facts\<close>

lemma map_of_dict_set: "map_of (dict_set kvs k v) = (map_of kvs)(k \<mapsto> v)"
  by (induction kvs) (auto simp: fun_eq_iff)

lemma events_after: "snd (snd (after evs s)) = evs @ snd (snd s)"
  by (cases s) simp

lemma dict_get_not_dict: "(\<forall>kvs. j \<noteq> JObj kvs) \<Longrightarrow> dict_get j k dflt = Inl AttributeError"
  by (cases j) auto

lemma nutrition_result_dicts:
  "nutrition_result (JObj p) (JObj n) =
     Inr (JObj [(''name'', get_or p ''product_name'' (JStr ''Unknown Product'')),
                (''calories'', get_or n ''energy-kcal_100g'' (JNum (PInt 0))),
                (''fat'', get_or n ''fat_100g'' (JNum (PInt 0))),
                (''carbs'', get_or n ''carbohydrates_100g'' (JNum (PInt 0))),
                (''protein'', get_or n ''proteins_100g'' (JNum (PInt 0))),
                (''sugar'', get_or n ''sugars_100g'' (JNum (PInt 0))),
                (''fiber'', get_or n ''fiber_100g'' (JNum (PInt 0)))])"
  by (simp add: nutrition_result_def)

lemma nutrition_result_shape:
  assumes "nutrition_result product nutriments = Inr r"
  shows "\<exists>v1 v2 v3 v4 v5 v6 v7. r = JObj [(''name'', v1), (''calories'', v2), (''fat'', v3),
            (''carbs'', v4), (''protein'', v5), (''sugar'', v6), (''fiber'', v7)]"
proof -
  obtain p where p: "product = JObj p"
    using assms by (cases product) (simp_all add: nutrition_result_def)
  obtain n where n: "nutriments = JObj n"
    using assms p by (cases nutriments) (simp_all add: nutrition_result_def)
  show ?thesis using assms unfolding p n nutrition_result_dicts by blast
qed

lemma fetch_try_shape:
  assumes "fetch_try remote b = Inr (Some r)"
  shows "\<exists>v1 v2 v3 v4 v5 v6 v7. r = JObj [(''name'', v1), (''calories'', v2), (''fat'', v3),
            (''carbs'', v4), (''protein'', v5), (''sugar'', v6), (''fiber'', v7)]"
proof -
  from assms obtain product nutriments where "nutrition_result product nutriments = Inr r"
    by (auto simp: fetch_try_def split: http_result.splits body.splits sum.splits if_splits)
  then show ?thesis by (rule nutrition_result_shape)
qed

lemma fetch_shape:
  assumes "fetch_barcode_data remote b = Some r"
  shows "\<exists>v1 v2 v3 v4 v5 v6 v7. r = JObj [(''name'', v1), (''calories'', v2), (''fat'', v3),
            (''carbs'', v4), (''protein'', v5), (''sugar'', v6), (''fiber'', v7)]"
proof -
  from assms have "fetch_try remote b = Inr (Some r)"
    by (auto simp: fetch_barcode_data_def split: sum.splits)
  then show ?thesis by (rule fetch_try_shape)
qed

lemma fetch_truthy: "fetch_barcode_data remote b = Some r \<Longrightarrow> truthy r"
  by (drule fetch_shape) auto

lemma save_written:
  "write_fault d = NoFault \<Longrightarrow> save_nutrition_db db d = d\<lparr>db_file := Contents db\<rparr>"
  by (simp add: save_nutrition_db_def write_file_def)

lemma save_not_opened: "write_fault d = OpenFails \<Longrightarrow> save_nutrition_db db d = d"
  by (simp add: save_nutrition_db_def write_file_def)

lemma save_broken_off:
  "write_fault d = DumpFails \<Longrightarrow> save_nutrition_db db d = d\<lparr>db_file := Unreadable\<rparr>"
  by (simp add: save_nutrition_db_def write_file_def)

lemma load_contents: "db_file d = Contents db \<Longrightarrow> load_nutrition_db d = Inr (db, d)"
  by (simp add: load_nutrition_db_def)

lemma scan_loop_hit:
  assumes "bdata barcode = Utf8 b" "btype barcode \<noteq> ''PDF417''"
    and "map_of db ''barcodes'' = Some (JObj cache)"
    and "map_of cache b = Some (JObj r)" "map_of r ''name'' = Some name"
  shows "scan_loop remote (JObj db) (barcode # rest) d = (Inr (Some (JObj r)), d, [CacheGet b])"
proof -
  have "r \<noteq> []" using assms(5) by auto
  then show ?thesis using assms by (simp add: get_or_def)
qed

lemma scan_loop_miss_absent:
  assumes "bdata barcode = Utf8 b" "btype barcode \<noteq> ''PDF417''"
    and "map_of db ''barcodes'' = Some (JObj cache)"
    and "map_of cache b = None" "fetch_barcode_data remote b = None"
  shows "scan_loop remote (JObj db) (barcode # rest) d =
           after [CacheGet b, RemoteCall b,
                  Warning (''Barcode '' @ b @ '' not found in database or Open Food Facts.'')]
             (scan_loop remote (JObj db) rest d)"
  using assms by (simp add: get_or_def)

lemma scan_loop_miss_found:
  assumes "bdata barcode = Utf8 b" "btype barcode \<noteq> ''PDF417''"
    and "map_of db ''barcodes'' = Some (JObj cache)"
    and "map_of cache b = None" "fetch_barcode_data remote b = Some r"
  shows "scan_loop remote (JObj db) (barcode # rest) d =
           (Inr (Some r),
            save_nutrition_db (JObj (dict_set db ''barcodes'' (JObj (dict_set cache b r)))) d,
            [CacheGet b, RemoteCall b, Save (JObj (dict_set db ''barcodes'' (JObj (dict_set cache b r))))])"
  using assms fetch_truthy[OF assms(5)] by (simp add: get_or_def cache_insert_def)

lemma no_remote_call_when_cached:
  assumes "map_of db ''barcodes'' = Some (JObj cache)"
    and "map_of cache b = Some v" "truthy v"
  shows "RemoteCall b \<notin> set (snd (snd (scan_loop remote (JObj db) bcs d)))"
proof (induction bcs)
  case Nil
  show ?case by simp
next
  case (Cons barcode rest)
  show ?case
  proof (cases "bdata barcode")
    case Malformed
    then show ?thesis by simp
  next
    case (Utf8 s)
    show ?thesis
    proof (cases "s = b")
      case True
      with Utf8 assms Cons show ?thesis
        by (auto simp: get_or_def events_after split: sum.splits)
    next
      case False
      with Utf8 assms Cons show ?thesis
        by (auto simp: get_or_def events_after split: sum.splits option.splits)
    qed
  qed
qed

lemma remote_call_has_symbol:
  assumes "RemoteCall b \<in> set (snd (snd (scan_loop remote db bcs d)))"
  shows "\<exists>x \<in> set bcs. bdata x = Utf8 b"
  using assms
proof (induction bcs)
  case Nil
  then show ?case by simp
next
  case (Cons barcode rest)
  show ?case
  proof (cases "bdata barcode")
    case Malformed
    with Cons.prems show ?thesis by simp
  next
    case (Utf8 s)
    show ?thesis
    proof (cases "s = b")
      case True
      with Utf8 show ?thesis by simp
    next
      case False
      have "RemoteCall b \<in> set (snd (snd (scan_loop remote db rest d)))"
        using Cons.prems Utf8 False
        by (auto simp: events_after split: sum.splits option.splits if_splits)
      then show ?thesis using Cons.IH by simp
    qed
  qed
qed

lemma scan_barcode_loaded:
  assumes "db_file d = Contents (JObj db)" "db \<noteq> []" "decode img = Inr (barcode # rest)"
  shows "scan_barcode decode remote img d =
     (case scan_loop remote (JObj db) (barcode # rest) d of
        (Inl e, d2, evs) \<Rightarrow> Inr (None, d2, evs)
      | (Inr r, d2, evs) \<Rightarrow> Inr (r, d2, evs))"
  using assms by (simp add: scan_barcode_def load_nutrition_db_def)

lemma check_line_ok:
  "map_of r key = Some v \<Longrightarrow> as_number v = Some x \<Longrightarrow> \<not> violates b x (num_val limit)
   \<Longrightarrow> check_line fmt (JObj r) key label b limit ms = Inr ms"
  by (simp add: check_line_def get_or_def)

lemma check_line_total:
  "map_of r key = Some v \<Longrightarrow> as_number v = Some x
   \<Longrightarrow> \<exists>ms'. check_line fmt (JObj r) key label b limit ms = Inr ms'"
  by (simp add: check_line_def get_or_def)

lemma sample_fetch: "fetch_barcode_data sample_remote ''3017620422003'' = Some sample_fetched"
  by (simp add: fetch_barcode_data_def fetch_try_def sample_remote_def sample_product_def
      sample_fetched_def nutrition_result_def get_or_def)

lemma sample_fetch_absent: "fetch_barcode_data sample_remote ''0000000000000'' = None"
  by (simp add: fetch_barcode_data_def fetch_try_def sample_remote_def get_or_def)

section \<open>The remote lookup\<close>

text \<open>
  Claim C6. \<^verbatim>\<open>fetch_barcode_data\<close> raises nothing: every exception inside its
  \<^verbatim>\<open>try\<close> becomes the answer \<^verbatim>\<open>None\<close>, and so do a failed request, a
  status code other than 200, a body that is not JSON or not a dict, a
  \<^verbatim>\<open>status\<close> field that is not 1 and missing or empty product data. On success the
  result has the seven fields of a nutrition record, a missing nutrient is 0 and a
  missing product name is \<^verbatim>\<open>"Unknown Product"\<close>.
\<close>

theorem fetch_barcode_data_contract:
  "(\<forall>e. fetch_try remote b = Inl e \<longrightarrow> fetch_barcode_data remote b = None) \<and>
   (remote b = NetFail \<longrightarrow> fetch_barcode_data remote b = None) \<and>
   (\<forall>code reply. remote b = Reply code reply \<and> code \<noteq> 200
        \<longrightarrow> fetch_barcode_data remote b = None) \<and>
   (remote b = Reply 200 BadJson \<longrightarrow> fetch_barcode_data remote b = None) \<and>
   (\<forall>data. remote b = Reply 200 (Json data) \<and> (\<forall>kvs. data \<noteq> JObj kvs)
        \<longrightarrow> fetch_barcode_data remote b = None) \<and>
   (\<forall>top. remote b = Reply 200 (Json (JObj top)) \<and>
        (as_number (get_or top ''status'' JNull) \<noteq> Some 1 \<or>
         \<not> truthy (get_or top ''product'' JNull))
        \<longrightarrow> fetch_barcode_data remote b = None) \<and>
   (\<forall>top p n. remote b = Reply 200 (Json (JObj top)) \<and>
        as_number (get_or top ''status'' JNull) = Some 1 \<and>
        map_of top ''product'' = Some (JObj p) \<and> p \<noteq> [] \<and>
        get_or p ''nutriments'' (JObj []) = JObj n
        \<longrightarrow> fetch_barcode_data remote b =
             Some (JObj [(''name'', get_or p ''product_name'' (JStr ''Unknown Product'')),
                (''calories'', get_or n ''energy-kcal_100g'' (JNum (PInt 0))),
                (''fat'', get_or n ''fat_100g'' (JNum (PInt 0))),
                (''carbs'', get_or n ''carbohydrates_100g'' (JNum (PInt 0))),
                (''protein'', get_or n ''proteins_100g'' (JNum (PInt 0))),
                (''sugar'', get_or n ''sugars_100g'' (JNum (PInt 0))),
                (''fiber'', get_or n ''fiber_100g'' (JNum (PInt 0)))])) \<and>
   (\<forall>kvs k dflt. map_of kvs k = None \<longrightarrow> get_or kvs k dflt = dflt)"
proof (intro conjI allI impI)
  fix e assume "fetch_try remote b = Inl e"
  then show "fetch_barcode_data remote b = None"
    by (simp add: fetch_barcode_data_def)
next
  assume "remote b = NetFail"
  then show "fetch_barcode_data remote b = None"
    by (simp add: fetch_barcode_data_def fetch_try_def)
next
  fix code reply assume "remote b = Reply code reply \<and> code \<noteq> 200"
  then show "fetch_barcode_data remote b = None"
    by (simp add: fetch_barcode_data_def fetch_try_def)
next
  assume "remote b = Reply 200 BadJson"
  then show "fetch_barcode_data remote b = None"
    by (simp add: fetch_barcode_data_def fetch_try_def)
next
  fix data assume "remote b = Reply 200 (Json data) \<and> (\<forall>kvs. data \<noteq> JObj kvs)"
  then show "fetch_barcode_data remote b = None"
    by (simp add: fetch_barcode_data_def fetch_try_def dict_get_not_dict)
next
  fix top
  assume "remote b = Reply 200 (Json (JObj top)) \<and>
        (as_number (get_or top ''status'' JNull) \<noteq> Some 1 \<or>
         \<not> truthy (get_or top ''product'' JNull))"
  then show "fetch_barcode_data remote b = None"
    by (auto simp add: fetch_barcode_data_def fetch_try_def)
next
  fix top p n
  assume a: "remote b = Reply 200 (Json (JObj top)) \<and>
        as_number (get_or top ''status'' JNull) = Some 1 \<and>
        map_of top ''product'' = Some (JObj p) \<and> p \<noteq> [] \<and>
        get_or p ''nutriments'' (JObj []) = JObj n"
  then have "get_or top ''product'' JNull = JObj p"
    by (simp add: get_or_def)
  with a show "fetch_barcode_data remote b =
             Some (JObj [(''name'', get_or p ''product_name'' (JStr ''Unknown Product'')),
                (''calories'', get_or n ''energy-kcal_100g'' (JNum (PInt 0))),
                (''fat'', get_or n ''fat_100g'' (JNum (PInt 0))),
                (''carbs'', get_or n ''carbohydrates_100g'' (JNum (PInt 0))),
                (''protein'', get_or n ''proteins_100g'' (JNum (PInt 0))),
                (''sugar'', get_or n ''sugars_100g'' (JNum (PInt 0))),
                (''fiber'', get_or n ''fiber_100g'' (JNum (PInt 0)))])"
    by (simp add: fetch_barcode_data_def fetch_try_def nutrition_result_dicts)
next
  fix kvs :: "(string \<times> json) list" and k dflt
  assume "map_of kvs k = None"
  then show "get_or kvs k dflt = dflt"
    by (simp add: get_or_def)
qed

theorem fetch_barcode_data_contract_witness:
  "sample_remote ''3017620422003'' =
     Reply 200 (Json (JObj [(''status'', JNum (PInt 1)), (''product'', JObj sample_product)])) \<and>
   fetch_barcode_data sample_remote ''3017620422003'' =
     Some (JObj [(''name'', JStr ''Unknown Product''), (''calories'', JNum (PInt 539)),
                 (''fat'', JNum (PFloat (309 / 10))), (''carbs'', JNum (PInt 0)),
                 (''protein'', JNum (PInt 0)), (''sugar'', JNum (PFloat (563 / 10))),
                 (''fiber'', JNum (PInt 0))]) \<and>
   sample_remote ''4000000000000'' = Reply 404 BadJson \<and>
   fetch_barcode_data sample_remote ''4000000000000'' = None \<and>
   fetch_barcode_data sample_remote ''0000000000000'' = None"
proof -
  let ?top = "[(''status'', JNum (PInt 1)), (''product'', JObj sample_product)]"
  let ?n = "[(''energy-kcal_100g'', JNum (PInt 539)), (''fat_100g'', JNum (PFloat (309 / 10))),
             (''sugars_100g'', JNum (PFloat (563 / 10)))]"
  have r1: "sample_remote ''3017620422003'' = Reply 200 (Json (JObj ?top))"
    by (simp add: sample_remote_def)
  have h1: "as_number (get_or ?top ''status'' JNull) = Some 1"
    "map_of ?top ''product'' = Some (JObj sample_product)" "sample_product \<noteq> []"
    "get_or sample_product ''nutriments'' (JObj []) = JObj ?n"
    by (simp_all add: get_or_def sample_product_def)
  have r2: "sample_remote ''4000000000000'' = Reply 404 BadJson"
    by (simp add: sample_remote_def)
  have r3: "sample_remote ''0000000000000'' = Reply 200 (Json (JObj [(''status'', JNum (PInt 0))]))"
    by (simp add: sample_remote_def)
  have h3: "as_number (get_or [(''status'', JNum (PInt 0))] ''status'' JNull) \<noteq> Some 1"
    by (simp add: get_or_def)
  have f1: "fetch_barcode_data sample_remote ''3017620422003'' =
     Some (JObj [(''name'', get_or sample_product ''product_name'' (JStr ''Unknown Product'')),
                (''calories'', get_or ?n ''energy-kcal_100g'' (JNum (PInt 0))),
                (''fat'', get_or ?n ''fat_100g'' (JNum (PInt 0))),
                (''carbs'', get_or ?n ''carbohydrates_100g'' (JNum (PInt 0))),
                (''protein'', get_or ?n ''proteins_100g'' (JNum (PInt 0))),
                (''sugar'', get_or ?n ''sugars_100g'' (JNum (PInt 0))),
                (''fiber'', get_or ?n ''fiber_100g'' (JNum (PInt 0)))])"
    using fetch_barcode_data_contract[of sample_remote "''3017620422003''"] r1 h1 by blast
  have f2: "fetch_barcode_data sample_remote ''4000000000000'' = None"
    using fetch_barcode_data_contract[of sample_remote "''4000000000000''"] r2 by auto
  have f3: "fetch_barcode_data sample_remote ''0000000000000'' = None"
    using fetch_barcode_data_contract[of sample_remote "''0000000000000''"] r3 h3 by blast
  show ?thesis
    using r1 r2 f1 f2 f3 by (simp add: get_or_def sample_product_def)
qed

section \<open>The scan\<close>

text \<open>
  Claim C1. When the barcode under the loop is a key of the store and the store holds
  a nutrition record under it (a dict with its \<^verbatim>\<open>name\<close>), the scan returns that
  record, asks the store once and does not call \<^verbatim>\<open>fetch_barcode_data\<close>; the file
  is left as it is. That holds for the loop and for \<^verbatim>\<open>scan_barcode\<close> on an image
  whose first symbol is that barcode. Moreover no scan with this store, whatever the
  image holds, calls \<^verbatim>\<open>fetch_barcode_data\<close> for that barcode.
\<close>

theorem cache_hit_returns_cached_record:
  assumes "bdata barcode = Utf8 b" "btype barcode \<noteq> ''PDF417''"
    and "map_of db ''barcodes'' = Some (JObj cache)"
    and "map_of cache b = Some (JObj r)" "map_of r ''name'' = Some name"
  shows "scan_loop remote (JObj db) (barcode # rest) d = (Inr (Some (JObj r)), d, [CacheGet b]) \<and>
    (\<forall>decode img. db_file d = Contents (JObj db) \<and> decode img = Inr (barcode # rest)
        \<longrightarrow> scan_barcode decode remote img d = Inr (Some (JObj r), d, [CacheGet b])) \<and>
    (\<forall>barcodes d'. RemoteCall b \<notin> set (snd (snd (scan_loop remote (JObj db) barcodes d'))))"
proof (intro conjI allI impI)
  show hit: "scan_loop remote (JObj db) (barcode # rest) d = (Inr (Some (JObj r)), d, [CacheGet b])"
    by (rule scan_loop_hit[OF assms])
  have ne: "db \<noteq> []" using assms(3) by auto
  fix decode :: "'a \<Rightarrow> exn + decoded list" and img
  assume "db_file d = Contents (JObj db) \<and> decode img = Inr (barcode # rest)"
  then show "scan_barcode decode remote img d = Inr (Some (JObj r), d, [CacheGet b])"
    using ne by (simp add: scan_barcode_loaded hit del: scan_loop.simps)
next
  fix barcodes d'
  have "truthy (JObj r)" using assms(5) by auto
  then show "RemoteCall b \<notin> set (snd (snd (scan_loop remote (JObj db) barcodes d')))"
    by (rule no_remote_call_when_cached[OF assms(3,4)])
qed

theorem cache_hit_returns_cached_record_witness:
  "scan_barcode sample_decode sample_remote 2 sample_disk =
     Inr (Some (JObj sample_record), sample_disk, [CacheGet ''5000112548167''])"
proof -
  have h: "bdata (ean13 ''5000112548167'') = Utf8 ''5000112548167''"
    "btype (ean13 ''5000112548167'') \<noteq> ''PDF417''"
    "map_of sample_db ''barcodes'' = Some (JObj sample_cache)"
    "map_of sample_cache ''5000112548167'' = Some (JObj sample_record)"
    "map_of sample_record ''name'' = Some (JStr ''Oat flakes'')"
    by (simp_all add: ean13_def sample_db_def sample_cache_def sample_record_def)
  have e: "db_file sample_disk = Contents (JObj sample_db)"
    "sample_decode 2 = Inr [ean13 ''5000112548167'']"
    by (simp_all add: sample_disk_def sample_decode_def)
  have "\<forall>(decode :: nat \<Rightarrow> exn + decoded list) img.
          db_file sample_disk = Contents (JObj sample_db) \<and>
            decode img = Inr [ean13 ''5000112548167'']
        \<longrightarrow> scan_barcode decode sample_remote img sample_disk =
            Inr (Some (JObj sample_record), sample_disk, [CacheGet ''5000112548167''])"
    using cache_hit_returns_cached_record[OF h, of sample_remote "[]" sample_disk]
    by (rule conjunct1[OF conjunct2])
  from this[rule_format, of sample_decode 2] e show ?thesis
    by simp
qed

text \<open>
  Claim C4 as the spec states it fails: the payload is decoded (line 90) before the
  symbology is tested (line 91), so a PDF417 symbol whose bytes are not valid UTF-8
  raises, and the scan ends with \<^verbatim>\<open>None\<close> without going on to the barcode
  behind it, which alone would have been found in the store.
\<close>

theorem undecodable_pdf417_ends_scan:
  "btype pdf417_raw = ''PDF417'' \<and>
   sample_decode 5 = Inr [pdf417_raw, ean13 ''5000112548167''] \<and>
   scan_barcode sample_decode sample_remote 5 sample_disk = Inr (None, sample_disk, []) \<and>
   scan_barcode sample_decode sample_remote 2 sample_disk =
     Inr (Some (JObj sample_record), sample_disk, [CacheGet ''5000112548167''])"
  by (simp add: pdf417_raw_def sample_decode_def scan_barcode_def load_nutrition_db_def
      sample_disk_def sample_db_def sample_cache_def sample_record_def ean13_def get_or_def)

text \<open>
  Claim C4, as the code has it. For a decoded barcode of symbology PDF417 the scan
  asks neither the store nor \<^verbatim>\<open>fetch_barcode_data\<close>: all that the symbol adds to
  what the scan does is at most one warning. When its payload decodes as UTF-8, the
  scan warns the user with the payload and goes on with the remaining barcodes of the
  image.
\<close>

theorem pdf417_skipped:
  assumes "btype barcode = ''PDF417''"
  shows "(\<forall>s. bdata barcode = Utf8 s \<longrightarrow>
            scan_loop remote db (barcode # rest) d =
              after [Warning (''PDF417 barcode '' @ s @ '' not supported. Use UPC/EAN format.'')]
                (scan_loop remote db rest d)) \<and>
         (snd (snd (scan_loop remote db (barcode # rest) d)) = [] \<or>
          (\<exists>w. snd (snd (scan_loop remote db (barcode # rest) d)) =
                 Warning w # snd (snd (scan_loop remote db rest d)))) \<and>
         (\<forall>s. CacheGet s \<notin> set (snd (snd (scan_loop remote db [barcode] d))) \<and>
              RemoteCall s \<notin> set (snd (snd (scan_loop remote db [barcode] d))))"
proof (intro conjI allI impI)
  fix s assume "bdata barcode = Utf8 s"
  then show "scan_loop remote db (barcode # rest) d =
              after [Warning (''PDF417 barcode '' @ s @ '' not supported. Use UPC/EAN format.'')]
                (scan_loop remote db rest d)"
    using assms by simp
next
  show "snd (snd (scan_loop remote db (barcode # rest) d)) = [] \<or>
          (\<exists>w. snd (snd (scan_loop remote db (barcode # rest) d)) =
                 Warning w # snd (snd (scan_loop remote db rest d)))"
    using assms by (cases "bdata barcode") (simp_all add: events_after)
next
  fix s
  show "CacheGet s \<notin> set (snd (snd (scan_loop remote db [barcode] d)))"
    using assms by (cases "bdata barcode") simp_all
  show "RemoteCall s \<notin> set (snd (snd (scan_loop remote db [barcode] d)))"
    using assms by (cases "bdata barcode") simp_all
qed

theorem pdf417_skipped_witness:
  "scan_loop sample_remote (JObj sample_db) [pdf417 ''M1DOE/JOHN'', ean13 ''5000112548167''] sample_disk =
     (Inr (Some (JObj sample_record)), sample_disk,
      [Warning ''PDF417 barcode M1DOE/JOHN not supported. Use UPC/EAN format.'',
       CacheGet ''5000112548167''])"
proof -
  have h: "btype (pdf417 ''M1DOE/JOHN'') = ''PDF417''"
    "bdata (pdf417 ''M1DOE/JOHN'') = Utf8 ''M1DOE/JOHN''"
    by (simp_all add: pdf417_def)
  have r: "scan_loop sample_remote (JObj sample_db) [ean13 ''5000112548167''] sample_disk =
     (Inr (Some (JObj sample_record)), sample_disk, [CacheGet ''5000112548167''])"
    by (simp add: ean13_def sample_db_def sample_cache_def sample_record_def get_or_def)
  have step: "scan_loop sample_remote (JObj sample_db)
                [pdf417 ''M1DOE/JOHN'', ean13 ''5000112548167''] sample_disk =
     after [Warning (''PDF417 barcode '' @ ''M1DOE/JOHN'' @ '' not supported. Use UPC/EAN format.'')]
       (scan_loop sample_remote (JObj sample_db) [ean13 ''5000112548167''] sample_disk)"
    using pdf417_skipped[OF h(1), of sample_remote "JObj sample_db" "[ean13 ''5000112548167'']"
        sample_disk] h(2)
    by blast
  show ?thesis
    unfolding step r by simp
qed

text \<open>
  Claim C8. When the barcode is not a key of the store and \<^verbatim>\<open>fetch_barcode_data\<close>
  answers \<^verbatim>\<open>None\<close>, the scan warns the user and goes on to the next barcode with
  the same store and the same file; for that barcode alone it returns \<^verbatim>\<open>None\<close>,
  with the file unchanged and no call of \<^verbatim>\<open>save_nutrition_db\<close>.
\<close>

theorem remote_absent_leaves_store_unchanged:
  assumes "bdata barcode = Utf8 b" "btype barcode \<noteq> ''PDF417''"
    and "map_of db ''barcodes'' = Some (JObj cache)"
    and "map_of cache b = None" "fetch_barcode_data remote b = None"
  shows "scan_loop remote (JObj db) (barcode # rest) d =
           after [CacheGet b, RemoteCall b,
                  Warning (''Barcode '' @ b @ '' not found in database or Open Food Facts.'')]
             (scan_loop remote (JObj db) rest d) \<and>
    scan_loop remote (JObj db) [barcode] d =
      (Inr None, d,
       [CacheGet b, RemoteCall b,
        Warning (''Barcode '' @ b @ '' not found in database or Open Food Facts.'')]) \<and>
    (\<forall>decode img. db_file d = Contents (JObj db) \<and> decode img = Inr [barcode]
        \<longrightarrow> scan_barcode decode remote img d =
             Inr (None, d,
                  [CacheGet b, RemoteCall b,
                   Warning (''Barcode '' @ b @ '' not found in database or Open Food Facts.'')]))"
proof (intro conjI allI impI)
  show "scan_loop remote (JObj db) (barcode # rest) d =
           after [CacheGet b, RemoteCall b,
                  Warning (''Barcode '' @ b @ '' not found in database or Open Food Facts.'')]
             (scan_loop remote (JObj db) rest d)"
    by (rule scan_loop_miss_absent[OF assms])
  show one: "scan_loop remote (JObj db) [barcode] d =
      (Inr None, d,
       [CacheGet b, RemoteCall b,
        Warning (''Barcode '' @ b @ '' not found in database or Open Food Facts.'')])"
    unfolding scan_loop_miss_absent[OF assms] by simp
  have ne: "db \<noteq> []" using assms(3) by auto
  fix decode :: "'a \<Rightarrow> exn + decoded list" and img
  assume "db_file d = Contents (JObj db) \<and> decode img = Inr [barcode]"
  then show "scan_barcode decode remote img d =
             Inr (None, d,
                  [CacheGet b, RemoteCall b,
                   Warning (''Barcode '' @ b @ '' not found in database or Open Food Facts.'')])"
    using ne by (simp add: scan_barcode_loaded one del: scan_loop.simps)
qed

theorem remote_absent_leaves_store_unchanged_witness:
  "scan_barcode sample_decode sample_remote 4 sample_disk =
     Inr (None, sample_disk,
          [CacheGet ''0000000000000'', RemoteCall ''0000000000000'',
           Warning ''Barcode 0000000000000 not found in database or Open Food Facts.''])"
proof -
  have h: "bdata (ean13 ''0000000000000'') = Utf8 ''0000000000000''"
    "btype (ean13 ''0000000000000'') \<noteq> ''PDF417''"
    "map_of sample_db ''barcodes'' = Some (JObj sample_cache)"
    "map_of sample_cache ''0000000000000'' = None"
    by (simp_all add: ean13_def sample_db_def sample_cache_def)
  have e: "db_file sample_disk = Contents (JObj sample_db)"
    "sample_decode 4 = Inr [ean13 ''0000000000000'']"
    by (simp_all add: sample_disk_def sample_decode_def)
  have "\<forall>(decode :: nat \<Rightarrow> exn + decoded list) img.
          db_file sample_disk = Contents (JObj sample_db) \<and>
            decode img = Inr [ean13 ''0000000000000'']
        \<longrightarrow> scan_barcode decode sample_remote img sample_disk =
             Inr (None, sample_disk,
                  [CacheGet ''0000000000000'', RemoteCall ''0000000000000'',
                   Warning (''Barcode '' @ ''0000000000000'' @
                            '' not found in database or Open Food Facts.'')])"
    using remote_absent_leaves_store_unchanged[OF h sample_fetch_absent, of "[]" sample_disk]
    by (rule conjunct2[OF conjunct2])
  from this[rule_format, of sample_decode 4] e show ?thesis
    by simp
qed

text \<open>
  Claim C2, as the code has it. When the barcode is not a key of the store, the scan
  calls \<^verbatim>\<open>fetch_barcode_data\<close> exactly once for that symbol: once in all when the
  call returns a record or when no later symbol of the image carries the same payload,
  and otherwise once more than the scan of the remaining symbols does. If the call
  returns a record, the record is put into the store under the barcode,
  \<^verbatim>\<open>save_nutrition_db\<close> is called with the whole store and the record is returned.
  If the write succeeds, the file then holds that store, and a later load returns it
  and leaves the file as it is, with the record under the barcode and every other key
  as before.
\<close>

theorem cache_miss_fetches_once_and_saves:
  assumes "bdata barcode = Utf8 b" "btype barcode \<noteq> ''PDF417''"
    and "map_of db ''barcodes'' = Some (JObj cache)"
    and "map_of cache b = None"
  shows
   "count_list (snd (snd (scan_loop remote (JObj db) (barcode # rest) d))) (RemoteCall b) =
      1 + (case fetch_barcode_data remote b of
             None \<Rightarrow> count_list (snd (snd (scan_loop remote (JObj db) rest d))) (RemoteCall b)
           | Some r \<Rightarrow> 0) \<and>
    ((\<forall>x \<in> set rest. bdata x \<noteq> Utf8 b)
       \<longrightarrow> count_list (snd (snd (scan_loop remote (JObj db) (barcode # rest) d))) (RemoteCall b) = 1) \<and>
    (\<forall>r db'. fetch_barcode_data remote b = Some r \<and>
         db' = JObj (dict_set db ''barcodes'' (JObj (dict_set cache b r)))
       \<longrightarrow> scan_loop remote (JObj db) (barcode # rest) d =
             (Inr (Some r), save_nutrition_db db' d, [CacheGet b, RemoteCall b, Save db']) \<and>
           subscript db' ''barcodes'' = Inr (JObj (dict_set cache b r)) \<and>
           map_of (dict_set cache b r) = (map_of cache)(b \<mapsto> r) \<and>
           (write_fault d = NoFault \<longrightarrow>
              save_nutrition_db db' d = d\<lparr>db_file := Contents db'\<rparr> \<and>
              load_nutrition_db (d\<lparr>db_file := Contents db'\<rparr>) =
                Inr (db', d\<lparr>db_file := Contents db'\<rparr>)))"
proof (intro conjI allI impI)
  show count: "count_list (snd (snd (scan_loop remote (JObj db) (barcode # rest) d))) (RemoteCall b) =
      1 + (case fetch_barcode_data remote b of
             None \<Rightarrow> count_list (snd (snd (scan_loop remote (JObj db) rest d))) (RemoteCall b)
           | Some r \<Rightarrow> 0)"
  proof (cases "fetch_barcode_data remote b")
    case None
    show ?thesis
      unfolding scan_loop_miss_absent[OF assms None] by (simp add: None events_after)
  next
    case (Some r)
    show ?thesis
      unfolding scan_loop_miss_found[OF assms Some] by (simp add: Some)
  qed
  show "count_list (snd (snd (scan_loop remote (JObj db) (barcode # rest) d))) (RemoteCall b) = 1"
    if "\<forall>x \<in> set rest. bdata x \<noteq> Utf8 b"
  proof -
    have "RemoteCall b \<notin> set (snd (snd (scan_loop remote (JObj db) rest d)))"
      using that remote_call_has_symbol by blast
    then have "count_list (snd (snd (scan_loop remote (JObj db) rest d))) (RemoteCall b) = 0"
      by simp
    then show ?thesis
      unfolding count by (simp split: option.splits)
  qed
next
  fix r db'
  assume a: "fetch_barcode_data remote b = Some r \<and>
         db' = JObj (dict_set db ''barcodes'' (JObj (dict_set cache b r)))"
  then have f: "fetch_barcode_data remote b = Some r"
    and db': "db' = JObj (dict_set db ''barcodes'' (JObj (dict_set cache b r)))"
    by simp_all
  show "scan_loop remote (JObj db) (barcode # rest) d =
             (Inr (Some r), save_nutrition_db db' d, [CacheGet b, RemoteCall b, Save db'])"
    unfolding db' by (rule scan_loop_miss_found[OF assms f])
  show "subscript db' ''barcodes'' = Inr (JObj (dict_set cache b r))"
    unfolding db' by (simp add: map_of_dict_set)
  show "map_of (dict_set cache b r) = (map_of cache)(b \<mapsto> r)"
    by (rule map_of_dict_set)
  show "save_nutrition_db db' d = d\<lparr>db_file := Contents db'\<rparr>" if "write_fault d = NoFault"
    using that by (rule save_written)
  show "load_nutrition_db (d\<lparr>db_file := Contents db'\<rparr>) = Inr (db', d\<lparr>db_file := Contents db'\<rparr>)"
    by (rule load_contents) simp
qed

theorem cache_miss_fetches_once_and_saves_witness:
  "scan_loop sample_remote (JObj sample_db) [ean13 ''3017620422003''] sample_disk =
     (Inr (Some sample_fetched), sample_disk\<lparr>db_file := Contents sample_db_after\<rparr>,
      [CacheGet ''3017620422003'', RemoteCall ''3017620422003'', Save sample_db_after]) \<and>
   load_nutrition_db (sample_disk\<lparr>db_file := Contents sample_db_after\<rparr>) =
     Inr (sample_db_after, sample_disk\<lparr>db_file := Contents sample_db_after\<rparr>)"
proof -
  have h: "bdata (ean13 ''3017620422003'') = Utf8 ''3017620422003''"
    "btype (ean13 ''3017620422003'') \<noteq> ''PDF417''"
    "map_of sample_db ''barcodes'' = Some (JObj sample_cache)"
    "map_of sample_cache ''3017620422003'' = None"
    by (simp_all add: ean13_def sample_db_def sample_cache_def)
  have a: "sample_db_after =
      JObj (dict_set sample_db ''barcodes'' (JObj (dict_set sample_cache ''3017620422003'' sample_fetched)))"
    by (simp add: sample_db_after_def sample_db_def sample_cache_def)
  have w: "write_fault sample_disk = NoFault"
    by (simp add: sample_disk_def)
  have "\<forall>r db'. fetch_barcode_data sample_remote ''3017620422003'' = Some r \<and>
         db' = JObj (dict_set sample_db ''barcodes'' (JObj (dict_set sample_cache ''3017620422003'' r)))
       \<longrightarrow> scan_loop sample_remote (JObj sample_db) [ean13 ''3017620422003''] sample_disk =
             (Inr (Some r), save_nutrition_db db' sample_disk,
              [CacheGet ''3017620422003'', RemoteCall ''3017620422003'', Save db']) \<and>
           subscript db' ''barcodes'' = Inr (JObj (dict_set sample_cache ''3017620422003'' r)) \<and>
           map_of (dict_set sample_cache ''3017620422003'' r) =
             (map_of sample_cache)(''3017620422003'' \<mapsto> r) \<and>
           (write_fault sample_disk = NoFault \<longrightarrow>
              save_nutrition_db db' sample_disk = sample_disk\<lparr>db_file := Contents db'\<rparr> \<and>
              load_nutrition_db (sample_disk\<lparr>db_file := Contents db'\<rparr>) =
                Inr (db', sample_disk\<lparr>db_file := Contents db'\<rparr>))"
    using cache_miss_fetches_once_and_saves[OF h, of sample_remote "[]" sample_disk]
    by (rule conjunct2[OF conjunct2])
  from this[rule_format, of sample_fetched sample_db_after] sample_fetch a w show ?thesis
    by simp
qed

text \<open>
  Claim C2 as the spec states it fails where the write fails: on a disk where the file
  cannot be opened for writing the scan returns the fetched record, the file keeps the
  old store, and the next load returns a store without the barcode.
\<close>

theorem failed_save_loses_record:
  "scan_barcode sample_decode sample_remote 3 readonly_disk =
     Inr (Some sample_fetched, readonly_disk,
          [CacheGet ''3017620422003'', RemoteCall ''3017620422003'', Save sample_db_after]) \<and>
   load_nutrition_db readonly_disk = Inr (JObj sample_db, readonly_disk) \<and>
   subscript (JObj sample_db) ''barcodes'' = Inr (JObj sample_cache) \<and>
   map_of sample_cache ''3017620422003'' = None"
proof -
  have h: "bdata (ean13 ''3017620422003'') = Utf8 ''3017620422003''"
    "btype (ean13 ''3017620422003'') \<noteq> ''PDF417''"
    "map_of sample_db ''barcodes'' = Some (JObj sample_cache)"
    "map_of sample_cache ''3017620422003'' = None"
    by (simp_all add: ean13_def sample_db_def sample_cache_def)
  have a: "JObj (dict_set sample_db ''barcodes''
             (JObj (dict_set sample_cache ''3017620422003'' sample_fetched))) = sample_db_after"
    by (simp add: sample_db_after_def sample_db_def sample_cache_def)
  have l: "scan_loop sample_remote (JObj sample_db) [ean13 ''3017620422003''] readonly_disk =
     (Inr (Some sample_fetched), readonly_disk,
      [CacheGet ''3017620422003'', RemoteCall ''3017620422003'', Save sample_db_after])"
    unfolding scan_loop_miss_found[OF h sample_fetch] a
    by (simp add: save_not_opened readonly_disk_def)
  have e: "db_file readonly_disk = Contents (JObj sample_db)" "sample_db \<noteq> []"
    "sample_decode 3 = Inr [ean13 ''3017620422003'']"
    by (simp_all add: readonly_disk_def sample_decode_def sample_db_def)
  have s: "scan_barcode sample_decode sample_remote 3 readonly_disk =
     Inr (Some sample_fetched, readonly_disk,
          [CacheGet ''3017620422003'', RemoteCall ''3017620422003'', Save sample_db_after])"
    unfolding scan_barcode_loaded[where decode = sample_decode and img = "3::nat", OF e] l
    by simp
  show ?thesis
    using s h(3,4) load_contents[OF e(1)] by simp
qed

text \<open>
  When the write breaks off after the file was opened, the file is left truncated: the
  scan still returns the fetched record, and the next load answers with an empty
  store, without the records the file held before.
\<close>

lemma broken_write_empties_store:
  "scan_loop sample_remote (JObj sample_db) [ean13 ''3017620422003''] full_disk =
     (Inr (Some sample_fetched), full_disk\<lparr>db_file := Unreadable\<rparr>,
      [CacheGet ''3017620422003'', RemoteCall ''3017620422003'', Save sample_db_after]) \<and>
   load_nutrition_db (full_disk\<lparr>db_file := Unreadable\<rparr>) =
     Inr (empty_db, full_disk\<lparr>db_file := Unreadable\<rparr>)"
proof -
  have h: "bdata (ean13 ''3017620422003'') = Utf8 ''3017620422003''"
    "btype (ean13 ''3017620422003'') \<noteq> ''PDF417''"
    "map_of sample_db ''barcodes'' = Some (JObj sample_cache)"
    "map_of sample_cache ''3017620422003'' = None"
    by (simp_all add: ean13_def sample_db_def sample_cache_def)
  have a: "JObj (dict_set sample_db ''barcodes''
             (JObj (dict_set sample_cache ''3017620422003'' sample_fetched))) = sample_db_after"
    by (simp add: sample_db_after_def sample_db_def sample_cache_def)
  have l: "scan_loop sample_remote (JObj sample_db) [ean13 ''3017620422003''] full_disk =
     (Inr (Some sample_fetched), full_disk\<lparr>db_file := Unreadable\<rparr>,
      [CacheGet ''3017620422003'', RemoteCall ''3017620422003'', Save sample_db_after])"
    unfolding scan_loop_miss_found[OF h sample_fetch] a
    by (simp add: save_broken_off full_disk_def)
  show ?thesis
    using l by (simp add: load_nutrition_db_def)
qed



text \<open>
  Inside \<^verbatim>\<open>scan_barcode\<close> the picture is another one: an exception of the
  preprocessing or of \<^verbatim>\<open>pyzbar.decode\<close> on an image that was read is caught and
  answered with \<^verbatim>\<open>None\<close>, the same value, with the same file and the same events,
  as for an image in which no barcode is found; \<^verbatim>\<open>main\<close> then shows
  \<^verbatim>\<open>Barcode not recognized.\<close> for both. Only the log line differs.
\<close>

lemma scan_exception_returns_none:
  assumes "decode img = Inl e" "decode img' = Inr []"
  shows "scan_barcode decode remote img d = scan_barcode decode remote img' d \<and>
    (\<forall>db d1. load_nutrition_db d = Inr (db, d1)
        \<longrightarrow> scan_barcode decode remote img d = Inr (None, d1, []))"
  using assms by (simp add: scan_barcode_def split: sum.splits prod.splits)

lemma scan_exception_shown_as_not_recognized:
  assumes "imdecode up = Some img" "decode img = Inl e" "load_nutrition_db d = Inr (db, d1)"
  shows "main_upload fmt decode remote max_calories min_protein max_fat max_carbs max_sugar
           min_fiber up d =
         ([ShowImage, ErrorMsg ''Barcode not recognized. Check nutriscan.log for details.''], d1)"
  using assms by (simp add: main_upload_def scan_barcode_def)

lemma scan_exception_sample:
  "sample_decode 0 = Inl ImageError \<and> sample_decode 1 = Inr [] \<and>
   scan_barcode sample_decode sample_remote 0 sample_disk = Inr (None, sample_disk, []) \<and>
   scan_barcode sample_decode sample_remote 1 sample_disk = Inr (None, sample_disk, [])"
  by (simp add: sample_decode_def scan_barcode_def load_nutrition_db_def sample_disk_def
      sample_db_def)

text \<open>
  Further behaviour of the scan that the claims leave open. A payload that is not
  valid UTF-8 ends the whole scan with \<^verbatim>\<open>None\<close>, whatever its symbology and
  whatever follows it in the image, since the payload is decoded before the symbology
  is tested. An image without barcodes is answered without any lookup or remote call
  (scenario D of the spec). A store entry that is empty counts as a miss, and an entry
  without a name ends the scan with \<^verbatim>\<open>None\<close>. A missing file is created with an
  empty store; when that write fails, the exception reaches the caller of the load.
\<close>

lemma malformed_payload_ends_scan:
  assumes "bdata barcode = Malformed"
  shows "scan_loop remote db (barcode # rest) d = (Inl UnicodeDecodeError, d, [])"
  using assms by simp

lemma no_barcodes_no_calls:
  assumes "load_nutrition_db d = Inr (db, d1)" "decode img = Inr []"
  shows "scan_barcode decode remote img d = Inr (None, d1, [])"
  using assms by (simp add: scan_barcode_def)

lemma empty_entry_is_a_miss:
  assumes "bdata barcode = Utf8 b" "btype barcode \<noteq> ''PDF417''"
    and "map_of db ''barcodes'' = Some (JObj cache)"
    and "map_of cache b = Some (JObj [])" "fetch_barcode_data remote b = None"
  shows "scan_loop remote (JObj db) [barcode] d =
      (Inr None, d,
       [CacheGet b, RemoteCall b,
        Warning (''Barcode '' @ b @ '' not found in database or Open Food Facts.'')])"
  using assms by (simp add: get_or_def)

lemma entry_without_name_raises:
  assumes "bdata barcode = Utf8 b" "btype barcode \<noteq> ''PDF417''"
    and "map_of db ''barcodes'' = Some (JObj cache)"
    and "map_of cache b = Some (JObj r)" "r \<noteq> []" "map_of r ''name'' = None"
  shows "scan_loop remote (JObj db) (barcode # rest) d = (Inl KeyError, d, [CacheGet b])"
  using assms by (simp add: get_or_def)

lemma load_creates_missing_file:
  "load_nutrition_db \<lparr>db_file = Missing, write_fault = NoFault\<rparr> =
     Inr (empty_db, \<lparr>db_file = Contents empty_db, write_fault = NoFault\<rparr>)"
  by (simp add: load_nutrition_db_def write_file_def)

lemma load_cannot_create_file:
  "load_nutrition_db \<lparr>db_file = Missing, write_fault = OpenFails\<rparr> =
     Inl (OSError, \<lparr>db_file = Missing, write_fault = OpenFails\<rparr>)"
  by (simp add: load_nutrition_db_def write_file_def)

lemma load_unreadable_file:
  "load_nutrition_db \<lparr>db_file = Unreadable, write_fault = w\<rparr> =
     Inr (empty_db, \<lparr>db_file = Unreadable, write_fault = w\<rparr>)"
  by (simp add: load_nutrition_db_def)

section \<open>The evaluation\<close>

text \<open>
  Claim C3. For every record that is evaluated (one that passes the test
  \<^verbatim>\<open>if not data\<close>) and every choice of the six thresholds, whenever
  \<^verbatim>\<open>check_nutrition\<close> returns, the flag it returns is true if and only if the
  list of mismatches it returns is empty.
\<close>

theorem passed_iff_no_mismatch:
  assumes "truthy data"
    and "check_nutrition fmt data max_calories min_protein max_fat max_carbs max_sugar min_fiber
           = Inr (passed, mismatches)"
  shows "passed \<longleftrightarrow> mismatches = []"
  using assms by (auto simp: check_nutrition_def split: sum.splits)

theorem passed_iff_no_mismatch_witness:
  "truthy (JObj sample_record) \<and>
   check_nutrition fmt_int (JObj sample_record) (PInt 100) (PInt 2) (PInt 5) (PInt 90) (PInt 10) (PInt 1)
     = Inr (False, [''Calories (120 > 100)'']) \<and>
   (False \<longleftrightarrow> [''Calories (120 > 100)''] = [])"
proof -
  have t: "truthy (JObj sample_record)"
    by (simp add: sample_record_def)
  have c: "check_nutrition fmt_int (JObj sample_record) (PInt 100) (PInt 2) (PInt 5) (PInt 90)
             (PInt 10) (PInt 1) = Inr (False, [''Calories (120 > 100)''])"
    by (simp add: check_nutrition_def check_line_def sample_record_def get_or_def str_int_def)
  show ?thesis
    using t c passed_iff_no_mismatch[OF t c] by simp
qed

text \<open>
  Claim C7. A record whose six nutrient values each equal the corresponding
  threshold has no mismatch: the upper bounds (calories, fat, carbs, sugar) and the
  lower bounds (protein, fiber) all pass at equality. Equality is Python's
  \<^verbatim>\<open>==\<close> on numbers, so \<^verbatim>\<open>5.0\<close> equals \<^verbatim>\<open>5\<close>.
\<close>

theorem at_threshold_no_mismatch:
  assumes "map_of r ''calories'' = Some v1" "as_number v1 = Some (num_val max_calories)"
    and "map_of r ''protein'' = Some v2" "as_number v2 = Some (num_val min_protein)"
    and "map_of r ''fat'' = Some v3" "as_number v3 = Some (num_val max_fat)"
    and "map_of r ''carbs'' = Some v4" "as_number v4 = Some (num_val max_carbs)"
    and "map_of r ''sugar'' = Some v5" "as_number v5 = Some (num_val max_sugar)"
    and "map_of r ''fiber'' = Some v6" "as_number v6 = Some (num_val min_fiber)"
  shows "check_nutrition fmt (JObj r) max_calories min_protein max_fat max_carbs max_sugar min_fiber
           = Inr (True, [])"
proof -
  have ne: "r \<noteq> []" using assms(1) by auto
  have 1: "check_line fmt (JObj r) ''calories'' ''Calories'' Upper max_calories [] = Inr []"
    by (rule check_line_ok[OF assms(1,2)]) simp
  have 2: "check_line fmt (JObj r) ''protein'' ''Protein'' Lower min_protein [] = Inr []"
    by (rule check_line_ok[OF assms(3,4)]) simp
  have 3: "check_line fmt (JObj r) ''fat'' ''Fat'' Upper max_fat [] = Inr []"
    by (rule check_line_ok[OF assms(5,6)]) simp
  have 4: "check_line fmt (JObj r) ''carbs'' ''Carbs'' Upper max_carbs [] = Inr []"
    by (rule check_line_ok[OF assms(7,8)]) simp
  have 5: "check_line fmt (JObj r) ''sugar'' ''Sugar'' Upper max_sugar [] = Inr []"
    by (rule check_line_ok[OF assms(9,10)]) simp
  have 6: "check_line fmt (JObj r) ''fiber'' ''Fiber'' Lower min_fiber [] = Inr []"
    by (rule check_line_ok[OF assms(11,12)]) simp
  show ?thesis
    using ne by (simp add: check_nutrition_def 1 2 3 4 5 6)
qed

theorem at_threshold_no_mismatch_witness:
  "check_nutrition fmt_int (JObj sample_record) (PInt 120) (PFloat 3) (PInt 2) (PInt 20) (PInt 5)
     (PFloat 2) = Inr (True, [])"
proof -
  have m: "map_of sample_record ''calories'' = Some (JNum (PInt 120))"
    "map_of sample_record ''protein'' = Some (JNum (PInt 3))"
    "map_of sample_record ''fat'' = Some (JNum (PInt 2))"
    "map_of sample_record ''carbs'' = Some (JNum (PInt 20))"
    "map_of sample_record ''sugar'' = Some (JNum (PInt 5))"
    "map_of sample_record ''fiber'' = Some (JNum (PInt 2))"
    by (simp_all add: sample_record_def)
  have n: "as_number (JNum (PInt 120)) = Some (num_val (PInt 120))"
    "as_number (JNum (PInt 3)) = Some (num_val (PFloat 3))"
    "as_number (JNum (PInt 2)) = Some (num_val (PInt 2))"
    "as_number (JNum (PInt 20)) = Some (num_val (PInt 20))"
    "as_number (JNum (PInt 5)) = Some (num_val (PInt 5))"
    "as_number (JNum (PInt 2)) = Some (num_val (PFloat 2))"
    by simp_all
  show ?thesis
    by (rule at_threshold_no_mismatch[OF m(1) n(1) m(2) n(2) m(3) n(3) m(4) n(4) m(5) n(5) m(6) n(6)])
qed

text \<open>
  Claim C9. For an absent record (\<^verbatim>\<open>None\<close>) and every choice of thresholds,
  \<^verbatim>\<open>check_nutrition\<close> returns the flag false with an empty list of mismatches.
  The empty dict, which is as false as \<^verbatim>\<open>None\<close> to \<^verbatim>\<open>if not data\<close>, gets
  the same answer.
\<close>

theorem absent_record_fails_without_mismatches:
  "check_nutrition fmt JNull max_calories min_protein max_fat max_carbs max_sugar min_fiber
     = Inr (False, []) \<and>
   check_nutrition fmt (JObj []) max_calories min_protein max_fat max_carbs max_sugar min_fiber
     = Inr (False, [])"
  by (simp add: check_nutrition_def)

text \<open>
  Claim C10 as the spec states it fails: a record can hold all six nutrient keys and
  still make \<^verbatim>\<open>check_nutrition\<close> raise, when the value under a key is not a
  number. With \<^verbatim>\<open>null\<close> under \<^verbatim>\<open>fat\<close> the comparison of line 118 raises
  TypeError.
\<close>

theorem null_field_raises:
  "map_of null_record ''calories'' = Some (JNum (PInt 120)) \<and>
   map_of null_record ''protein'' = Some (JNum (PInt 3)) \<and>
   map_of null_record ''fat'' = Some JNull \<and>
   map_of null_record ''carbs'' = Some (JNum (PInt 20)) \<and>
   map_of null_record ''sugar'' = Some (JNum (PInt 5)) \<and>
   map_of null_record ''fiber'' = Some (JNum (PInt 2)) \<and>
   truthy (JObj null_record) \<and>
   check_nutrition fmt_int (JObj null_record) (PInt 400) (PInt 2) (PInt 5) (PInt 90) (PInt 10)
     (PInt 1) = Inl TypeError"
  by (simp add: null_record_def check_nutrition_def check_line_def get_or_def)

text \<open>
  Claim C10, as the code has it. For every record that is a non-empty dict holding a
  number under each of the six nutrient keys, \<^verbatim>\<open>check_nutrition\<close> returns a
  result and raises nothing. (A missing key can raise as well: see
  \<open>missing_field_raises\<close> below.)
\<close>

theorem check_nutrition_total:
  assumes "map_of r ''calories'' = Some v1" "as_number v1 = Some x1"
    and "map_of r ''protein'' = Some v2" "as_number v2 = Some x2"
    and "map_of r ''fat'' = Some v3" "as_number v3 = Some x3"
    and "map_of r ''carbs'' = Some v4" "as_number v4 = Some x4"
    and "map_of r ''sugar'' = Some v5" "as_number v5 = Some x5"
    and "map_of r ''fiber'' = Some v6" "as_number v6 = Some x6"
  shows "\<exists>passed mismatches.
           check_nutrition fmt (JObj r) max_calories min_protein max_fat max_carbs max_sugar min_fiber
             = Inr (passed, mismatches)"
proof -
  have ne: "r \<noteq> []" using assms(1) by auto
  obtain m1 where 1: "check_line fmt (JObj r) ''calories'' ''Calories'' Upper max_calories [] = Inr m1"
    using check_line_total[OF assms(1,2)] by blast
  obtain m2 where 2: "check_line fmt (JObj r) ''protein'' ''Protein'' Lower min_protein m1 = Inr m2"
    using check_line_total[OF assms(3,4)] by blast
  obtain m3 where 3: "check_line fmt (JObj r) ''fat'' ''Fat'' Upper max_fat m2 = Inr m3"
    using check_line_total[OF assms(5,6)] by blast
  obtain m4 where 4: "check_line fmt (JObj r) ''carbs'' ''Carbs'' Upper max_carbs m3 = Inr m4"
    using check_line_total[OF assms(7,8)] by blast
  obtain m5 where 5: "check_line fmt (JObj r) ''sugar'' ''Sugar'' Upper max_sugar m4 = Inr m5"
    using check_line_total[OF assms(9,10)] by blast
  obtain m6 where 6: "check_line fmt (JObj r) ''fiber'' ''Fiber'' Lower min_fiber m5 = Inr m6"
    using check_line_total[OF assms(11,12)] by blast
  show ?thesis
    using ne by (simp add: check_nutrition_def 1 2 3 4 5 6)
qed

theorem check_nutrition_total_witness:
  "\<exists>passed mismatches.
     check_nutrition fmt_int (JObj sample_record) (PInt 100) (PInt 4) (PInt 1) (PInt 10) (PInt 4)
       (PInt 3) = Inr (passed, mismatches)"
proof -
  have m: "map_of sample_record ''calories'' = Some (JNum (PInt 120))"
    "map_of sample_record ''protein'' = Some (JNum (PInt 3))"
    "map_of sample_record ''fat'' = Some (JNum (PInt 2))"
    "map_of sample_record ''carbs'' = Some (JNum (PInt 20))"
    "map_of sample_record ''sugar'' = Some (JNum (PInt 5))"
    "map_of sample_record ''fiber'' = Some (JNum (PInt 2))"
    by (simp_all add: sample_record_def)
  have n: "as_number (JNum (PInt 120)) = Some 120" "as_number (JNum (PInt 3)) = Some 3"
    "as_number (JNum (PInt 2)) = Some 2" "as_number (JNum (PInt 20)) = Some 20"
    "as_number (JNum (PInt 5)) = Some 5"
    by simp_all
  show ?thesis
    by (rule check_nutrition_total[OF m(1) n(1) m(2) n(2) m(3) n(3) m(4) n(4) m(5) n(5) m(6) n(3)])
qed

text \<open>
  The comparison of a line reads the field with the default 0, its message reads the
  field with no default: a record without the key \<^verbatim>\<open>protein\<close> against a positive
  minimum raises KeyError, and the same record passes when the default does not
  violate the threshold. A value that is not a number raises TypeError, also in a
  record that \<^verbatim>\<open>fetch_barcode_data\<close> built from a reply with a \<^verbatim>\<open>null\<close>
  nutrient.
\<close>

lemma missing_field_raises:
  assumes "map_of r ''calories'' = Some v1" "as_number v1 = Some x1"
    and "\<not> x1 > num_val max_calories"
    and "map_of r ''protein'' = None" "0 < num_val min_protein"
  shows "check_nutrition fmt (JObj r) max_calories min_protein max_fat max_carbs max_sugar min_fiber
           = Inl KeyError"
proof -
  have ne: "r \<noteq> []" using assms(1) by auto
  have 1: "check_line fmt (JObj r) ''calories'' ''Calories'' Upper max_calories [] = Inr []"
    by (rule check_line_ok[OF assms(1,2)]) (simp add: assms(3))
  have 2: "check_line fmt (JObj r) ''protein'' ''Protein'' Lower min_protein [] = Inl KeyError"
    using assms(4,5) by (simp add: check_line_def get_or_def)
  show ?thesis
    using ne by (simp add: check_nutrition_def 1 2)
qed

lemma missing_field_default_passes:
  "check_nutrition fmt (JObj [(''name'', JStr ''Water'')]) (PInt 400) (PInt 0) (PInt 5) (PInt 90)
     (PInt 10) (PInt 0) = Inr (True, [])"
  by (simp add: check_nutrition_def check_line_def get_or_def)

lemma fetched_null_field_raises:
  assumes "remote b =
     Reply 200 (Json (JObj [(''status'', JNum (PInt 1)),
       (''product'', JObj [(''nutriments'', JObj [(''fat_100g'', JNull)])])]))"
  shows "fetch_barcode_data remote b =
     Some (JObj [(''name'', JStr ''Unknown Product''), (''calories'', JNum (PInt 0)),
                 (''fat'', JNull), (''carbs'', JNum (PInt 0)), (''protein'', JNum (PInt 0)),
                 (''sugar'', JNum (PInt 0)), (''fiber'', JNum (PInt 0))]) \<and>
   check_nutrition fmt
     (JObj [(''name'', JStr ''Unknown Product''), (''calories'', JNum (PInt 0)),
            (''fat'', JNull), (''carbs'', JNum (PInt 0)), (''protein'', JNum (PInt 0)),
            (''sugar'', JNum (PInt 0)), (''fiber'', JNum (PInt 0))])
     (PInt 400) (PInt 0) (PInt 5) (PInt 90) (PInt 10) (PInt 0) = Inl TypeError"
  using assms
  by (simp add: fetch_barcode_data_def fetch_try_def nutrition_result_def get_or_def
      check_nutrition_def check_line_def)

lemma non_numeric_field_raises:
  "check_nutrition fmt (JObj [(''calories'', JStr ''120'')]) (PInt 400) (PInt 0) (PInt 5) (PInt 90)
     (PInt 10) (PInt 0) = Inl TypeError"
  by (simp add: check_nutrition_def check_line_def get_or_def)

text \<open>Scenarios A and B of the spec.\<close>

lemma scenario_A:
  "check_nutrition fmt_int (JObj sample_record) (PInt 400) (PInt 2) (PInt 5) (PInt 90) (PInt 10)
     (PInt 1) = Inr (True, [])"
  by (simp add: check_nutrition_def check_line_def sample_record_def get_or_def)

lemma scenario_B:
  "check_nutrition fmt_int (JObj sample_record) (PInt 100) (PInt 2) (PInt 5) (PInt 90) (PInt 10)
     (PInt 1) = Inr (False, [''Calories (120 > 100)''])"
  by (simp add: check_nutrition_def check_line_def sample_record_def get_or_def str_int_def)

end
